theory Spec2Isabelle
  imports Complex_Main "HOL-Library.Word" "HOL-Library.Multiset"
begin

section \<open>Multi-source dataset assembly and splitting (utils/multi\_source\_loader.py)\<close>

text \<open>
  The development embeds \<^verbatim>\<open>MultiSourceDataLoader\<close>, \<^verbatim>\<open>shuffle_dataset\<close>,
  \<^verbatim>\<open>load_combined_dataset\<close> and \<^verbatim>\<open>get_data_splits\<close>. Exceptions are values
  (\<open>Inl\<close> of a sum), the loader object and NumPy's process-global random state are passed
  explicitly, and print statements are left out. Python floats (weights and fractions) are
  modelled by exact rationals.
\<close>

subsection \<open>Errors\<close>

datatype error = ValueError | IndexError | OSError

subsection \<open>Python string helpers\<close>

definition is_space :: "char \<Rightarrow> bool" where
  \<comment> \<open>\<^verbatim>\<open>str.isspace\<close> on code points below 256\<close>
  "is_space c = ((of_char c :: nat) \<in> set [9, 10, 11, 12, 13, 28, 29, 30, 31, 32, 133, 160])"

definition py_strip :: "string \<Rightarrow> string" where
  "py_strip s = rev (dropWhile is_space (rev (dropWhile is_space s)))"

fun py_split_aux :: "string \<Rightarrow> string \<Rightarrow> string list" where
  "py_split_aux cur [] = (if cur = [] then [] else [cur])"
| "py_split_aux cur (c # cs) =
     (if is_space c then (if cur = [] then py_split_aux [] cs else cur # py_split_aux [] cs)
      else py_split_aux (cur @ [c]) cs)"

definition py_split :: "string \<Rightarrow> string list" where
  \<comment> \<open>\<^verbatim>\<open>str.split()\<close> with no separator: maximal runs of non-whitespace\<close>
  "py_split s = py_split_aux [] s"

definition is_digit :: "char \<Rightarrow> bool" where
  "is_digit c = (48 \<le> (of_char c :: nat) \<and> (of_char c :: nat) \<le> 57)"

fun digits_ok :: "string \<Rightarrow> bool" where
  \<comment> \<open>a digit, then digits each optionally preceded by one underscore\<close>
  "digits_ok [] = False"
| "digits_ok [c] = is_digit c"
| "digits_ok (c # d # cs) =
     (is_digit c \<and> (if d = CHR ''_'' then digits_ok cs else digits_ok (d # cs)))"

definition digits_val :: "string \<Rightarrow> int" where
  "digits_val s = foldl (\<lambda>a c. 10 * a + (int (of_char c) - 48)) 0 (filter is_digit s)"

definition py_int :: "string \<Rightarrow> error + int" where
  \<comment> \<open>\<^verbatim>\<open>int(token)\<close> in base 10 on a token without whitespace; ValueError otherwise\<close>
  "py_int s =
     (case s of
        [] \<Rightarrow> Inl ValueError
      | c # cs \<Rightarrow>
          if c = CHR ''-'' then (if digits_ok cs then Inr (- digits_val cs) else Inl ValueError)
          else if c = CHR ''+'' then (if digits_ok cs then Inr (digits_val cs) else Inl ValueError)
          else if digits_ok s then Inr (digits_val s) else Inl ValueError)"

definition py_lower :: "string \<Rightarrow> string" where
  "py_lower s =
     map (\<lambda>c. if 65 \<le> (of_char c :: nat) \<and> (of_char c :: nat) \<le> 90
               then char_of ((of_char c :: nat) + 32) else c) s"

definition py_endswith :: "string \<Rightarrow> string \<Rightarrow> bool" where
  "py_endswith s ext = (length ext \<le> length s \<and> drop (length s - length ext) s = ext)"

fun str_nat :: "nat \<Rightarrow> string" where
  "str_nat n = (if n < 10 then [char_of (48 + n)]
                else str_nat (n div 10) @ [char_of (48 + n mod 10)])"

declare str_nat.simps [simp del]

definition path_join :: "string \<Rightarrow> string \<Rightarrow> string" where
  \<comment> \<open>\<^verbatim>\<open>os.path.join\<close> of two components on a POSIX system\<close>
  "path_join a b =
     (if b \<noteq> [] \<and> hd b = CHR ''/'' then b
      else if a = [] then b
      else if last a = CHR ''/'' then a @ b
      else a @ ''/'' @ b)"

definition py_int_of_float :: "rat \<Rightarrow> int" where
  \<comment> \<open>\<^verbatim>\<open>int(x)\<close> on a float truncates towards zero\<close>
  "py_int_of_float x = (if 0 \<le> x then \<lfloor>x\<rfloor> else \<lceil>x\<rceil>)"

subsection \<open>NumPy arrays\<close>

type_synonym pixel = "8 word"

text \<open>
  An array of images has one shape for all its items, as an \<^verbatim>\<open>ndarray\<close> has:
  \<open>ishape\<close> is \<^verbatim>\<open>shape[1:]\<close> and each item is the flat row-major pixel data.
  A label vector is a list of integers.
\<close>

record ndarray =
  ishape :: "nat list"
  items :: "pixel list list"

definition np_empty :: ndarray where
  \<comment> \<open>\<^verbatim>\<open>np.array([])\<close>, of shape (0,)\<close>
  "np_empty = \<lparr>ishape = [], items = []\<rparr>"

definition np_len :: "ndarray \<Rightarrow> nat" where
  "np_len a = length (items a)"

definition np_concatenate :: "ndarray list \<Rightarrow> error + ndarray" where
  \<comment> \<open>along axis 0: the other dimensions must agree, and the list must not be empty\<close>
  "np_concatenate arrs =
     (case arrs of
        [] \<Rightarrow> Inl ValueError
      | a # rest \<Rightarrow>
          if list_all (\<lambda>b. ishape b = ishape a) rest
          then Inr \<lparr>ishape = ishape a, items = concat (map items arrs)\<rparr>
          else Inl ValueError)"

definition np_concatenate_labels :: "int list list \<Rightarrow> error + int list" where
  "np_concatenate_labels ls = (if ls = [] then Inl ValueError else Inr (concat ls))"

definition list_take :: "'a list \<Rightarrow> nat list \<Rightarrow> error + 'a list" where
  \<comment> \<open>indexing with an array of non-negative indices; IndexError out of bounds\<close>
  "list_take xs idx =
     (if list_all (\<lambda>i. i < length xs) idx then Inr (map (\<lambda>i. xs ! i) idx) else Inl IndexError)"

definition np_take :: "ndarray \<Rightarrow> nat list \<Rightarrow> error + ndarray" where
  "np_take a idx =
     (case list_take (items a) idx of
        Inl e \<Rightarrow> Inl e
      | Inr its \<Rightarrow> Inr \<lparr>ishape = ishape a, items = its\<rparr>)"

definition slice_to :: "int \<Rightarrow> 'a list \<Rightarrow> 'a list" where
  \<comment> \<open>\<^verbatim>\<open>xs[:k]\<close>; a negative k counts from the end\<close>
  "slice_to k xs = (if 0 \<le> k then take (nat k) xs else take (length xs - nat (- k)) xs)"

definition np_slice_to :: "int \<Rightarrow> ndarray \<Rightarrow> ndarray" where
  "np_slice_to k a = \<lparr>ishape = ishape a, items = slice_to k (items a)\<rparr>"

definition np_expand_dims :: "ndarray \<Rightarrow> ndarray" where
  \<comment> \<open>\<^verbatim>\<open>np.expand_dims(images, axis=-1)\<close>\<close>
  "np_expand_dims a = \<lparr>ishape = ishape a @ [1], items = items a\<rparr>"

definition np_stack3 :: "ndarray \<Rightarrow> ndarray" where
  \<comment> \<open>\<^verbatim>\<open>np.stack([images] * 3, axis=-1)\<close>: every pixel three times\<close>
  "np_stack3 a = \<lparr>ishape = ishape a @ [3], items = map (\<lambda>d. concat (map (\<lambda>p. [p, p, p]) d)) (items a)\<rparr>"

text \<open>An image as \<^verbatim>\<open>cv2.imread\<close> returns it with its default flag: rows x cols x 3, 8-bit.\<close>

record cv_image =
  rows :: nat
  cols :: nat
  bgr :: "pixel list"

definition img_shape :: "cv_image \<Rightarrow> nat list" where
  "img_shape im = [rows im, cols im, 3]"

definition np_array_images :: "cv_image list \<Rightarrow> error + ndarray" where
  \<comment> \<open>\<^verbatim>\<open>np.array(images)\<close>; images of different shapes raise ValueError (NumPy 1.24 and later)\<close>
  "np_array_images ims =
     (case ims of
        [] \<Rightarrow> Inr np_empty
      | a # rest \<Rightarrow>
          if list_all (\<lambda>b. img_shape b = img_shape a) rest
          then Inr \<lparr>ishape = img_shape a, items = map bgr ims\<rparr>
          else Inl ValueError)"

subsection \<open>Configuration and environment\<close>

text \<open>One entry of \<^verbatim>\<open>params.DATA_SOURCES\<close>; \<open>source_weight\<close> is \<open>None\<close> when the key is absent.\<close>

record source_config =
  source_name :: string
  source_type :: string
  source_path :: string
  source_weight :: "rat option"

record params =
  DATA_SOURCES :: "source_config list"
  NB_CLASSES :: nat
  USE_GRAYSCALE :: bool
  SHUFFLE_SEED :: int
  TRAINING_PERCENTAGE :: rat
  VALIDATION_SPLIT :: rat

text \<open>
  The file system, the image decoder and the MNIST download, as the readers use them:
  \<^verbatim>\<open>os.path.exists\<close>, \<^verbatim>\<open>os.listdir\<close>, \<^verbatim>\<open>open(..).readlines()\<close>,
  \<^verbatim>\<open>cv2.imread\<close> (\<open>None\<close> when the file does not decode) and
  \<^verbatim>\<open>tf.keras.datasets.mnist.load_data()\<close>.
\<close>

record env =
  path_exists :: "string \<Rightarrow> bool"
  listdir :: "string \<Rightarrow> error + string list"
  readlines :: "string \<Rightarrow> error + string list"
  imread :: "string \<Rightarrow> cv_image option"
  mnist_load_data :: "error + ((ndarray \<times> int list) \<times> (ndarray \<times> int list))"

text \<open>
  NumPy's legacy global generator, over an abstract state \<open>'g\<close>: the state that
  \<^verbatim>\<open>np.random.seed\<close> installs, and the draws of \<^verbatim>\<open>np.random.permutation(n)\<close> and
  \<^verbatim>\<open>np.random.choice(n, k, replace=False)\<close>, each returning the next state.
\<close>

record 'g np_random =
  rng_seed :: "int \<Rightarrow> 'g"
  rng_permutation :: "'g \<Rightarrow> nat \<Rightarrow> nat list \<times> 'g"
  rng_choice :: "'g \<Rightarrow> nat \<Rightarrow> nat \<Rightarrow> nat list \<times> 'g"

definition np_random_seed :: "'g np_random \<Rightarrow> int \<Rightarrow> error + 'g" where
  \<comment> \<open>the seed must lie between 0 and 2**32 - 1\<close>
  "np_random_seed R s = (if 0 \<le> s \<and> s < 2 ^ 32 then Inr (rng_seed R s) else Inl ValueError)"

definition np_random_choice :: "'g np_random \<Rightarrow> 'g \<Rightarrow> nat \<Rightarrow> int \<Rightarrow> error + (nat list \<times> 'g)" where
  \<comment> \<open>without replacement: a negative size or one above the population raises\<close>
  "np_random_choice R g n k =
     (if k < 0 then Inl ValueError
      else if int n < k then Inl ValueError
      else Inr (rng_choice R g n (nat k)))"

subsection \<open>Source readers\<close>

definition load_builtin_dataset :: "params \<Rightarrow> env \<Rightarrow> string \<Rightarrow> error + (ndarray \<times> int list)" where
  "load_builtin_dataset P E dataset_name =
     (if py_lower dataset_name = ''mnist'' then
        (case mnist_load_data E of
           Inl e \<Rightarrow> Inl e
         | Inr ((x_train, y_train), (x_test, y_test)) \<Rightarrow>
             (case np_concatenate [x_train, x_test] of
                Inl e \<Rightarrow> Inl e
              | Inr images \<Rightarrow>
                  Inr (if \<not> USE_GRAYSCALE P then np_stack3 images else np_expand_dims images,
                       y_train @ y_test)))
      else Inr (np_empty, []))"

definition has_image_ext :: "string \<Rightarrow> bool" where
  "has_image_ext filename =
     list_ex (\<lambda>ext. py_endswith (py_lower filename) ext) [''.jpg'', ''.jpeg'', ''.png'', ''.bmp'']"

text \<open>The inner loop of \<^verbatim>\<open>load_folder_structure\<close>, over the names in one class directory.\<close>

fun folder_class_loop ::
  "env \<Rightarrow> string \<Rightarrow> nat \<Rightarrow> string list \<Rightarrow> cv_image list \<times> int list \<Rightarrow> cv_image list \<times> int list" where
  "folder_class_loop E class_dir class_label [] acc = acc"
| "folder_class_loop E class_dir class_label (filename # rest) (images, labels) =
     (if has_image_ext filename then
        (case imread E (path_join class_dir filename) of
           None \<Rightarrow> folder_class_loop E class_dir class_label rest (images, labels)
         | Some img \<Rightarrow>
             folder_class_loop E class_dir class_label rest
               (images @ [img], labels @ [int class_label]))
      else folder_class_loop E class_dir class_label rest (images, labels))"

text \<open>The outer loop, over \<^verbatim>\<open>range(params.NB_CLASSES)\<close>.\<close>

fun folder_loop ::
  "env \<Rightarrow> string \<Rightarrow> nat list \<Rightarrow> cv_image list \<times> int list \<Rightarrow> error + (cv_image list \<times> int list)" where
  "folder_loop E dataset_path [] acc = Inr acc"
| "folder_loop E dataset_path (class_label # rest) acc =
     (if \<not> path_exists E (path_join dataset_path (str_nat class_label))
      then folder_loop E dataset_path rest acc
      else
        (case listdir E (path_join dataset_path (str_nat class_label)) of
           Inl e \<Rightarrow> Inl e
         | Inr names \<Rightarrow>
             folder_loop E dataset_path rest
               (folder_class_loop E (path_join dataset_path (str_nat class_label))
                  class_label names acc)))"

definition load_folder_structure :: "params \<Rightarrow> env \<Rightarrow> string \<Rightarrow> error + (ndarray \<times> int list)" where
  "load_folder_structure P E dataset_path =
     (if \<not> path_exists E dataset_path then Inr (np_empty, [])
      else
        (case folder_loop E dataset_path [0..<NB_CLASSES P] ([], []) of
           Inl e \<Rightarrow> Inl e
         | Inr (images, labels) \<Rightarrow>
             (case np_array_images images of
                Inl e \<Rightarrow> Inl e
              | Inr arr \<Rightarrow> Inr (arr, labels))))"

text \<open>The loop of \<^verbatim>\<open>load_label_file_dataset\<close> over the manifest's lines.\<close>

fun label_lines_loop ::
  "env \<Rightarrow> string \<Rightarrow> string list \<Rightarrow> cv_image list \<times> int list \<Rightarrow> error + (cv_image list \<times> int list)" where
  "label_lines_loop E images_dir [] acc = Inr acc"
| "label_lines_loop E images_dir (line # rest) (images, labels) =
     (if 2 \<le> length (py_split (py_strip line)) then
        (case py_int (py_split (py_strip line) ! 1) of
           Inl e \<Rightarrow> Inl e
         | Inr label \<Rightarrow>
             (if path_exists E (path_join images_dir (py_split (py_strip line) ! 0)) then
                (case imread E (path_join images_dir (py_split (py_strip line) ! 0)) of
                   Some img \<Rightarrow>
                     label_lines_loop E images_dir rest (images @ [img], labels @ [label])
                 | None \<Rightarrow> label_lines_loop E images_dir rest (images, labels))
              else label_lines_loop E images_dir rest (images, labels)))
      else label_lines_loop E images_dir rest (images, labels))"

definition load_label_file_dataset :: "env \<Rightarrow> string \<Rightarrow> error + (ndarray \<times> int list)" where
  "load_label_file_dataset E dataset_path =
     (if \<not> (path_exists E (path_join dataset_path ''labels.txt'')
             \<and> path_exists E (path_join dataset_path ''images''))
      then Inr (np_empty, [])
      else
        (case readlines E (path_join dataset_path ''labels.txt'') of
           Inl e \<Rightarrow> Inl e
         | Inr lines \<Rightarrow>
             (case label_lines_loop E (path_join dataset_path ''images'') lines ([], []) of
                Inl e \<Rightarrow> Inl e
              | Inr (images, labels) \<Rightarrow>
                  (case np_array_images images of
                     Inl e \<Rightarrow> Inl e
                   | Inr arr \<Rightarrow> Inr (arr, labels)))))"

subsection \<open>The loader\<close>

record stats =
  count_images :: nat
  class_distribution :: "(nat \<times> nat) list"

record loader =
  all_images :: "ndarray list"
  all_labels :: "int list list"
  source_stats :: "string \<Rightarrow> stats option"

definition new_loader :: loader where
  \<comment> \<open>\<^verbatim>\<open>MultiSourceDataLoader.__init__\<close>\<close>
  "new_loader = \<lparr>all_images = [], all_labels = [], source_stats = Map.empty\<rparr>"

definition class_count :: "int list \<Rightarrow> nat \<Rightarrow> nat" where
  \<comment> \<open>\<^verbatim>\<open>np.sum(labels == i)\<close>\<close>
  "class_count labels i = length (filter (\<lambda>l. l = int i) labels)"

definition get_class_distribution :: "params \<Rightarrow> int list \<Rightarrow> (nat \<times> nat) list" where
  "get_class_distribution P labels =
     map (\<lambda>i. (i, class_count labels i))
       (filter (\<lambda>i. 0 < class_count labels i) [0..<NB_CLASSES P])"

definition load_mnist_fallback :: "params \<Rightarrow> env \<Rightarrow> error + (ndarray \<times> int list)" where
  "load_mnist_fallback P E = load_builtin_dataset P E ''mnist''"

text \<open>
  The body of the loop of \<^verbatim>\<open>load_all_sources\<close>, in three parts: the dispatch on the
  source type (\<open>None\<close> is the \<^verbatim>\<open>continue\<close> of an unknown type), the weighted
  subsampling, and the whole iteration.
\<close>

definition read_source :: "params \<Rightarrow> env \<Rightarrow> source_config \<Rightarrow> error + (ndarray \<times> int list) option" where
  "read_source P E cfg =
     (if source_type cfg = ''builtin'' then
        (case load_builtin_dataset P E (source_name cfg) of Inl e \<Rightarrow> Inl e | Inr r \<Rightarrow> Inr (Some r))
      else if source_type cfg = ''folder_structure'' then
        (case load_folder_structure P E (source_path cfg) of Inl e \<Rightarrow> Inl e | Inr r \<Rightarrow> Inr (Some r))
      else if source_type cfg = ''label_file'' then
        (case load_label_file_dataset E (source_path cfg) of Inl e \<Rightarrow> Inl e | Inr r \<Rightarrow> Inr (Some r))
      else Inr None)"

definition get_weight :: "source_config \<Rightarrow> rat" where
  \<comment> \<open>\<^verbatim>\<open>source_config.get('weight', 1.0)\<close>\<close>
  "get_weight cfg = (case source_weight cfg of None \<Rightarrow> 1 | Some w \<Rightarrow> w)"

definition sample_size :: "nat \<Rightarrow> rat \<Rightarrow> int" where
  \<comment> \<open>\<^verbatim>\<open>int(len(images) * source_weight)\<close>\<close>
  "sample_size n w = py_int_of_float (of_nat n * w)"

definition apply_weight ::
  "'g np_random \<Rightarrow> rat \<Rightarrow> ndarray \<times> int list \<Rightarrow> 'g \<Rightarrow> error + ((ndarray \<times> int list) \<times> 'g)" where
  "apply_weight R w batch g =
     (case batch of (images, labels) \<Rightarrow>
        if w < 1 \<and> 0 < np_len images then
          (case np_random_choice R g (np_len images) (sample_size (np_len images) w) of
             Inl e \<Rightarrow> Inl e
           | Inr (indices, g') \<Rightarrow>
               (case np_take images indices of
                  Inl e \<Rightarrow> Inl e
                | Inr images' \<Rightarrow>
                    (case list_take labels indices of
                       Inl e \<Rightarrow> Inl e
                     | Inr labels' \<Rightarrow> Inr ((images', labels'), g'))))
        else Inr ((images, labels), g))"

definition record_source :: "params \<Rightarrow> string \<Rightarrow> ndarray \<times> int list \<Rightarrow> loader \<Rightarrow> loader" where
  \<comment> \<open>the statistics entry and the two appends\<close>
  "record_source P nm batch st =
     (case batch of (images, labels) \<Rightarrow>
        st\<lparr>source_stats := (source_stats st)(nm \<mapsto>
               \<lparr>count_images = np_len images,
                class_distribution = get_class_distribution P labels\<rparr>),
           all_images := all_images st @ [images],
           all_labels := all_labels st @ [labels]\<rparr>)"

definition source_step ::
  "params \<Rightarrow> env \<Rightarrow> 'g np_random \<Rightarrow> source_config \<Rightarrow> loader \<times> 'g \<Rightarrow> error + (loader \<times> 'g)" where
  "source_step P E R cfg sg =
     (case sg of (st, g) \<Rightarrow>
        (case read_source P E cfg of
           Inl e \<Rightarrow> Inl e
         | Inr None \<Rightarrow> Inr (st, g)
         | Inr (Some (images, labels)) \<Rightarrow>
             if np_len images = 0 then Inr (st, g)
             else
               (case apply_weight R (get_weight cfg) (images, labels) g of
                  Inl e \<Rightarrow> Inl e
                | Inr (batch, g') \<Rightarrow> Inr (record_source P (source_name cfg) batch st, g'))))"

fun sources_loop ::
  "params \<Rightarrow> env \<Rightarrow> 'g np_random \<Rightarrow> source_config list \<Rightarrow> loader \<times> 'g \<Rightarrow> error + (loader \<times> 'g)" where
  "sources_loop P E R [] sg = Inr sg"
| "sources_loop P E R (cfg # rest) sg =
     (case source_step P E R cfg sg of
        Inl e \<Rightarrow> Inl e
      | Inr sg' \<Rightarrow> sources_loop P E R rest sg')"

definition combine :: "loader \<Rightarrow> error + (ndarray \<times> int list)" where
  \<comment> \<open>the two \<^verbatim>\<open>np.concatenate\<close> calls\<close>
  "combine st =
     (case np_concatenate (all_images st) of
        Inl e \<Rightarrow> Inl e
      | Inr combined_images \<Rightarrow>
          (case np_concatenate_labels (all_labels st) of
             Inl e \<Rightarrow> Inl e
           | Inr combined_labels \<Rightarrow> Inr (combined_images, combined_labels)))"

definition load_all_sources ::
  "params \<Rightarrow> env \<Rightarrow> 'g np_random \<Rightarrow> loader \<times> 'g \<Rightarrow> error + ((ndarray \<times> int list) \<times> loader \<times> 'g)" where
  "load_all_sources P E R sg =
     (case sources_loop P E R (DATA_SOURCES P) sg of
        Inl e \<Rightarrow> Inl e
      | Inr (st, g) \<Rightarrow>
          if length (all_images st) = 0 then
            (case load_mnist_fallback P E of Inl e \<Rightarrow> Inl e | Inr c \<Rightarrow> Inr (c, st, g))
          else
            (case combine st of Inl e \<Rightarrow> Inl e | Inr c \<Rightarrow> Inr (c, st, g)))"

definition print_detailed_stats :: "loader \<Rightarrow> error + unit" where
  \<comment> \<open>only its concatenations can raise; the printed text is left out\<close>
  "print_detailed_stats st =
     (if 0 < length (all_images st) then
        (case combine st of Inl e \<Rightarrow> Inl e | Inr c \<Rightarrow> Inr ())
      else Inr ())"

subsection \<open>Shuffling and splitting\<close>

definition shuffle_dataset ::
  "'g np_random \<Rightarrow> ndarray \<Rightarrow> int list \<Rightarrow> int \<Rightarrow> 'g \<Rightarrow> error + ((ndarray \<times> int list) \<times> 'g)" where
  \<comment> \<open>\<open>g\<close> is the global state at the call; \<^verbatim>\<open>np.random.seed\<close> replaces it\<close>
  "shuffle_dataset R images labels seed g =
     (case np_random_seed R seed of
        Inl e \<Rightarrow> Inl e
      | Inr g1 \<Rightarrow>
          (case rng_permutation R g1 (np_len images) of
             (indices, g2) \<Rightarrow>
               (case np_take images indices of
                  Inl e \<Rightarrow> Inl e
                | Inr images' \<Rightarrow>
                    (case list_take labels indices of
                       Inl e \<Rightarrow> Inl e
                     | Inr labels' \<Rightarrow> Inr ((images', labels'), g2)))))"

definition load_combined_dataset ::
  "params \<Rightarrow> env \<Rightarrow> 'g np_random \<Rightarrow> 'g \<Rightarrow> error + ((ndarray \<times> int list) \<times> 'g)" where
  "load_combined_dataset P E R g =
     (case load_all_sources P E R (new_loader, g) of
        Inl e \<Rightarrow> Inl e
      | Inr ((images, labels), st, g') \<Rightarrow>
          (case print_detailed_stats st of
             Inl e \<Rightarrow> Inl e
           | Inr u \<Rightarrow> shuffle_dataset R images labels (SHUFFLE_SEED P) g'))"

text \<open>
  scikit-learn's stratified shuffle split is a parameter: from \<^verbatim>\<open>random_state\<close>,
  \<^verbatim>\<open>test_size\<close> and the \<^verbatim>\<open>stratify\<close> labels it gives the train and the test
  indices, or raises. \<^verbatim>\<open>train_test_split\<close> checks that its arrays have one length and
  indexes each of them with the two index lists.
\<close>

type_synonym splitter = "int \<Rightarrow> rat \<Rightarrow> int list \<Rightarrow> error + (nat list \<times> nat list)"

definition train_test_split ::
  "splitter \<Rightarrow> ndarray \<Rightarrow> int list \<Rightarrow> rat \<Rightarrow> int
     \<Rightarrow> error + ((ndarray \<times> int list) \<times> (ndarray \<times> int list))" where
  \<comment> \<open>the result is ((x\_train, y\_train), (x\_test, y\_test))\<close>
  "train_test_split S x y test_size random_state =
     (if np_len x \<noteq> length y then Inl ValueError
      else
        (case S random_state test_size y of
           Inl e \<Rightarrow> Inl e
         | Inr (train, test) \<Rightarrow>
             (case np_take x train of Inl e \<Rightarrow> Inl e | Inr x_train \<Rightarrow>
             (case np_take x test of Inl e \<Rightarrow> Inl e | Inr x_test \<Rightarrow>
             (case list_take y train of Inl e \<Rightarrow> Inl e | Inr y_train \<Rightarrow>
             (case list_take y test of Inl e \<Rightarrow> Inl e | Inr y_test \<Rightarrow>
                Inr ((x_train, y_train), (x_test, y_test))))))))"

definition training_samples :: "params \<Rightarrow> nat \<Rightarrow> int" where
  \<comment> \<open>\<^verbatim>\<open>int(total_samples * params.TRAINING_PERCENTAGE)\<close>\<close>
  "training_samples P total_samples = py_int_of_float (of_nat total_samples * TRAINING_PERCENTAGE P)"

definition truncate_corpus :: "params \<Rightarrow> ndarray \<times> int list \<Rightarrow> ndarray \<times> int list" where
  \<comment> \<open>the two slices \<^verbatim>\<open>[:training_samples]\<close>\<close>
  "truncate_corpus P c =
     (case c of (images, labels) \<Rightarrow>
        (np_slice_to (training_samples P (np_len images)) images,
         slice_to (training_samples P (np_len images)) labels))"

definition split_corpus ::
  "params \<Rightarrow> splitter \<Rightarrow> ndarray \<times> int list
     \<Rightarrow> error + ((ndarray \<times> int list) \<times> (ndarray \<times> int list) \<times> (ndarray \<times> int list))" where
  \<comment> \<open>the two calls of \<^verbatim>\<open>train_test_split\<close>; the result is (train, validation, test)\<close>
  "split_corpus P S c =
     (case c of (images, labels) \<Rightarrow>
        (case train_test_split S images labels (1 / 5) (SHUFFLE_SEED P) of
           Inl e \<Rightarrow> Inl e
         | Inr ((x_train_val, y_train_val), (x_test, y_test)) \<Rightarrow>
             (case train_test_split S x_train_val y_train_val (VALIDATION_SPLIT P) (SHUFFLE_SEED P) of
                Inl e \<Rightarrow> Inl e
              | Inr ((x_train, y_train), (x_val, y_val)) \<Rightarrow>
                  Inr ((x_train, y_train), (x_val, y_val), (x_test, y_test)))))"

definition get_data_splits ::
  "params \<Rightarrow> env \<Rightarrow> 'g np_random \<Rightarrow> splitter \<Rightarrow> 'g
     \<Rightarrow> error + ((ndarray \<times> int list) \<times> (ndarray \<times> int list) \<times> (ndarray \<times> int list))" where
  "get_data_splits P E R S g =
     (case load_combined_dataset P E R g of
        Inl e \<Rightarrow> Inl e
      | Inr (c, g') \<Rightarrow> split_corpus P S (truncate_corpus P c))"

subsection \<open>Contracts of the libraries and predicates of the claims\<close>






text \<open>A corpus is paired when it has as many labels as images; its pairs are read index by index.\<close>

definition paired :: "ndarray \<times> int list \<Rightarrow> bool" where
  "paired c = (np_len (fst c) = length (snd c))"

definition pairs :: "ndarray \<times> int list \<Rightarrow> (pixel list \<times> int) list" where
  "pairs c = zip (items (fst c)) (snd c)"

text \<open>
  The MNIST download is consistent when each of its two parts has as many labels as
  images; a loader is paired when its two accumulation lists hold paired batches.
\<close>

definition mnist_consistent :: "env \<Rightarrow> bool" where
  "mnist_consistent E =
     (case mnist_load_data E of
        Inl e \<Rightarrow> True
      | Inr ((x_train, y_train), (x_test, y_test)) \<Rightarrow>
          np_len x_train = length y_train \<and> np_len x_test = length y_test)"

definition loader_paired :: "loader \<Rightarrow> bool" where
  "loader_paired st = list_all2 (\<lambda>a l. np_len a = length l) (all_images st) (all_labels st)"

text \<open>A source contributes when its reader returns at least one image.\<close>

definition contributes :: "params \<Rightarrow> env \<Rightarrow> source_config \<Rightarrow> bool" where
  "contributes P E cfg =
     (case read_source P E cfg of
        Inl e \<Rightarrow> False
      | Inr None \<Rightarrow> False
      | Inr (Some batch) \<Rightarrow> 0 < np_len (fst batch))"

subsection \<open>A small concrete run\<close>

text \<open>
  A file system with a folder source and a manifest source, a six-image builtin corpus, a
  generator that rotates the index range by its state, and a splitter that cuts the index
  range after checking that every class has two members.
\<close>

definition demo_img :: "nat \<Rightarrow> cv_image" where
  "demo_img p = \<lparr>rows = 1, cols = 1, bgr = [of_nat p, of_nat p, of_nat p]\<rparr>"

definition demo_gray :: "nat list \<Rightarrow> ndarray" where
  "demo_gray ps = \<lparr>ishape = [1, 1], items = map (\<lambda>p. [of_nat p]) ps\<rparr>"

definition demo_env :: env where
  "demo_env =
     \<lparr>path_exists = (\<lambda>p. p \<in> set [''data'', ''data/0'', ''data/1'', ''data/0/a.png'', ''data/0/b.PNG'',
                                     ''data/0/notes.txt'', ''data/1/c.jpg'', ''data/1/broken.bmp'',
                                     ''lf'', ''lf/labels.txt'', ''lf/images'', ''lf/images/x.png'',
                                     ''lf/images/y.png'']),
      listdir = (\<lambda>p. if p = ''data/0'' then Inr [''a.png'', ''b.PNG'', ''notes.txt'']
                      else if p = ''data/1'' then Inr [''c.jpg'', ''broken.bmp'']
                      else Inl OSError),
      readlines = (\<lambda>p. if p = ''lf/labels.txt''
                        then Inr [''x.png 1'', ''short'', ''missing.png 0'', ''  y.png   0  extra'']
                        else Inl OSError),
      imread = (\<lambda>p. if p = ''data/0/a.png'' then Some (demo_img 10)
                     else if p = ''data/0/b.PNG'' then Some (demo_img 11)
                     else if p = ''data/1/c.jpg'' then Some (demo_img 12)
                     else if p = ''lf/images/x.png'' then Some (demo_img 20)
                     else if p = ''lf/images/y.png'' then Some (demo_img 21)
                     else None),
      mnist_load_data = Inr ((demo_gray [1, 2, 3, 4], [0, 1, 0, 1]), (demo_gray [5, 6], [0, 1]))\<rparr>"

definition demo_rng :: "nat np_random" where
  "demo_rng =
     \<lparr>rng_seed = (\<lambda>s. nat s),
      rng_permutation = (\<lambda>g n. (rotate g [0..<n], Suc g)),
      rng_choice = (\<lambda>g n k. (take k (rotate g [0..<n]), Suc g))\<rparr>"

definition demo_splitter :: splitter where
  "demo_splitter random_state test_size y =
     (if list_ex (\<lambda>l. length (filter (\<lambda>m. m = l) y) < 2) y then Inl ValueError
      else if nat \<lceil>test_size * of_nat (length y)\<rceil> = 0 then Inl ValueError
      else if length y \<le> nat \<lceil>test_size * of_nat (length y)\<rceil> then Inl ValueError
      else Inr ([nat \<lceil>test_size * of_nat (length y)\<rceil>..<length y],
                [0..<nat \<lceil>test_size * of_nat (length y)\<rceil>]))"

definition demo_params :: params where
  "demo_params =
     \<lparr>DATA_SOURCES =
        [\<lparr>source_name = ''MNIST'', source_type = ''builtin'', source_path = '''', source_weight = Some (1 / 2)\<rparr>,
         \<lparr>source_name = ''folder'', source_type = ''folder_structure'', source_path = ''data'', source_weight = None\<rparr>,
         \<lparr>source_name = ''manifest'', source_type = ''label_file'', source_path = ''lf'', source_weight = Some 1\<rparr>,
         \<lparr>source_name = ''other'', source_type = ''csv'', source_path = ''x'', source_weight = None\<rparr>,
         \<lparr>source_name = ''gone'', source_type = ''folder_structure'', source_path = ''nowhere'', source_weight = None\<rparr>],
      NB_CLASSES = 2, USE_GRAYSCALE = False, SHUFFLE_SEED = 3,
      TRAINING_PERCENTAGE = 9 / 10, VALIDATION_SPLIT = 1 / 5\<rparr>"

text \<open>A configuration none of whose sources loads.\<close>

definition demo_params_unloadable :: params where
  "demo_params_unloadable =
     \<lparr>DATA_SOURCES =
        [\<lparr>source_name = ''other'', source_type = ''csv'', source_path = ''x'', source_weight = None\<rparr>,
         \<lparr>source_name = ''gone'', source_type = ''folder_structure'', source_path = ''nowhere'', source_weight = None\<rparr>],
      NB_CLASSES = 2, USE_GRAYSCALE = False, SHUFFLE_SEED = 3,
      TRAINING_PERCENTAGE = 9 / 10, VALIDATION_SPLIT = 1 / 5\<rparr>"



text \<open>
  A manifest whose second line has a label that is not a number; configurations with
  grayscale on; and the corpus part of what \<open>load_all_sources\<close> returns.
\<close>

definition demo_env_bad_manifest :: env where
  "demo_env_bad_manifest =
     demo_env\<lparr>readlines := (\<lambda>p. if p = ''lf/labels.txt''
                                  then Inr [''x.png 1'', ''y.png seven'']
                                  else Inl OSError)\<rparr>"

definition demo_params_manifest :: params where
  "demo_params_manifest =
     \<lparr>DATA_SOURCES =
        [\<lparr>source_name = ''manifest'', source_type = ''label_file'', source_path = ''lf'', source_weight = None\<rparr>],
      NB_CLASSES = 2, USE_GRAYSCALE = False, SHUFFLE_SEED = 3,
      TRAINING_PERCENTAGE = 9 / 10, VALIDATION_SPLIT = 1 / 5\<rparr>"

definition demo_params_gray :: params where
  "demo_params_gray =
     \<lparr>DATA_SOURCES =
        [\<lparr>source_name = ''folder'', source_type = ''folder_structure'', source_path = ''data'', source_weight = None\<rparr>],
      NB_CLASSES = 2, USE_GRAYSCALE = True, SHUFFLE_SEED = 3,
      TRAINING_PERCENTAGE = 9 / 10, VALIDATION_SPLIT = 1 / 5\<rparr>"

definition demo_params_gray_mixed :: params where
  "demo_params_gray_mixed =
     \<lparr>DATA_SOURCES =
        [\<lparr>source_name = ''mnist'', source_type = ''builtin'', source_path = '''', source_weight = None\<rparr>,
         \<lparr>source_name = ''folder'', source_type = ''folder_structure'', source_path = ''data'', source_weight = None\<rparr>],
      NB_CLASSES = 2, USE_GRAYSCALE = True, SHUFFLE_SEED = 3,
      TRAINING_PERCENTAGE = 9 / 10, VALIDATION_SPLIT = 1 / 5\<rparr>"

definition corpus_of :: "error + ((ndarray \<times> int list) \<times> loader \<times> 'g) \<Rightarrow> error + (ndarray \<times> int list)" where
  "corpus_of r = (case r of Inl e \<Rightarrow> Inl e | Inr (c, st, g) \<Rightarrow> Inr c)"


section \<open>Properties\<close>

subsection \<open>Indexing and the concrete generator\<close>

lemma list_take_Inr:
  "list_take xs idx = Inr ys \<longleftrightarrow> (list_all (\<lambda>i. i < length xs) idx \<and> ys = map (\<lambda>i. xs ! i) idx)"
  by (auto simp: list_take_def)

lemma np_take_Inr:
  "np_take a idx = Inr b \<longleftrightarrow>
     (list_all (\<lambda>i. i < np_len a) idx \<and> b = \<lparr>ishape = ishape a, items = map (\<lambda>i. items a ! i) idx\<rparr>)"
  by (auto simp: np_take_def np_len_def list_take_def)









lemma source_step_skip:
  assumes "\<not> contributes P E cfg" and "source_step P E R cfg (st, g) = Inr (st', g')"
  shows "st' = st \<and> g' = g"
  using assms
  by (auto simp: source_step_def contributes_def split: sum.splits option.splits prod.splits if_splits)

lemma source_step_contrib:
  assumes "contributes P E cfg" and "source_step P E R cfg (st, g) = Inr (st', g')"
  shows "\<exists>images labels batch.
           read_source P E cfg = Inr (Some (images, labels))
         \<and> apply_weight R (get_weight cfg) (images, labels) g = Inr (batch, g')
         \<and> st' = record_source P (source_name cfg) batch st"
  using assms
  by (auto simp: source_step_def contributes_def split: sum.splits option.splits prod.splits if_splits)

lemma all_images_record_source:
  "all_images (record_source P nm batch st) = all_images st @ [fst batch]"
  by (cases batch) (simp add: record_source_def)

lemma all_labels_record_source:
  "all_labels (record_source P nm batch st) = all_labels st @ [snd batch]"
  by (cases batch) (simp add: record_source_def)

lemma sources_loop_count:
  "sources_loop P E R srcs (st, g) = Inr (st', g') \<Longrightarrow>
     length (all_images st') = length (all_images st) + length (filter (contributes P E) srcs)"
proof (induction srcs arbitrary: st g)
  case Nil
  then show ?case by simp
next
  case (Cons cfg rest)
  from Cons.prems obtain st1 g1 where
    s: "source_step P E R cfg (st, g) = Inr (st1, g1)" and
    r: "sources_loop P E R rest (st1, g1) = Inr (st', g')"
    by (auto split: sum.splits)
  have ih: "length (all_images st') = length (all_images st1) + length (filter (contributes P E) rest)"
    using Cons.IH [OF r] .
  show ?case
  proof (cases "contributes P E cfg")
    case True
    then obtain batch where "st1 = record_source P (source_name cfg) batch st"
      using source_step_contrib [OF True s] by blast
    then show ?thesis using ih True by (simp add: all_images_record_source)
  next
    case False
    then show ?thesis using ih source_step_skip [OF False s] by simp
  qed
qed

lemma combine_Inr:
  assumes "combine st = Inr c"
  shows "items (fst c) = concat (map items (all_images st)) \<and> snd c = concat (all_labels st)"
  using assms
  by (auto simp: combine_def np_concatenate_def np_concatenate_labels_def
           split: sum.splits list.splits if_splits)

lemma demo_unloadable_loop:
  "sources_loop demo_params_unloadable demo_env demo_rng (DATA_SOURCES demo_params_unloadable)
     (new_loader, 0) = Inr (new_loader, 0)"
  by (simp add: demo_params_unloadable_def source_step_def read_source_def
        load_folder_structure_def demo_env_def np_len_def np_empty_def)





lemma shuffle_dataset_Inr:
  assumes "shuffle_dataset R images labels seed g = Inr ((images', labels'), g2)"
  shows "\<exists>indices. np_take images indices = Inr images' \<and> list_take labels indices = Inr labels'"
  using assms
  by (auto simp: shuffle_dataset_def split: sum.splits prod.splits)

lemma take_both_paired:
  assumes "np_take images indices = Inr images'" and "list_take labels indices = Inr labels'"
  shows "paired (images', labels')"
  using assms by (auto simp: np_take_Inr list_take_Inr paired_def np_len_def)


lemma truncate_corpus_paired:
  assumes "paired c"
  shows "paired (truncate_corpus P c)"
  using assms
  by (cases c) (simp add: paired_def truncate_corpus_def np_slice_to_def slice_to_def np_len_def)

lemma train_test_split_Inr:
  assumes "train_test_split S x y test_size random_state = Inr ((x_train, y_train), (x_test, y_test))"
  shows "np_len x = length y
       \<and> (\<exists>train test.
             S random_state test_size y = Inr (train, test)
           \<and> list_all (\<lambda>i. i < length y) train \<and> list_all (\<lambda>i. i < length y) test
           \<and> x_train = \<lparr>ishape = ishape x, items = map (\<lambda>i. items x ! i) train\<rparr>
           \<and> y_train = map (\<lambda>i. y ! i) train
           \<and> x_test = \<lparr>ishape = ishape x, items = map (\<lambda>i. items x ! i) test\<rparr>
           \<and> y_test = map (\<lambda>i. y ! i) test)"
  using assms
  by (auto simp: train_test_split_def np_take_Inr list_take_Inr split: sum.splits prod.splits if_splits)






lemma load_builtin_dataset_paired:
  assumes "mnist_consistent E" and "load_builtin_dataset P E nm = Inr c"
  shows "paired c"
  using assms
  by (auto simp: load_builtin_dataset_def mnist_consistent_def paired_def np_len_def
        np_concatenate_def np_stack3_def np_expand_dims_def np_empty_def
        split: if_splits sum.splits prod.splits)

lemma folder_class_loop_len:
  "length (fst acc) = length (snd acc) \<Longrightarrow>
     length (fst (folder_class_loop E d l names acc)) = length (snd (folder_class_loop E d l names acc))"
proof (induction names arbitrary: acc)
  case Nil
  then show ?case by simp
next
  case (Cons n names)
  obtain images labels where acc: "acc = (images, labels)" by (cases acc)
  show ?case
    using Cons.prems Cons.IH [of "(images, labels)"]
      Cons.IH [of "(images @ [the (imread E (path_join d n))], labels @ [int l])"]
    unfolding acc by (auto split: option.splits)
qed

lemma folder_loop_len:
  "folder_loop E p cls acc = Inr acc' \<Longrightarrow> length (fst acc) = length (snd acc) \<Longrightarrow>
     length (fst acc') = length (snd acc')"
proof (induction cls arbitrary: acc)
  case Nil
  then show ?case by simp
next
  case (Cons cl cls)
  show ?case
  proof (cases "path_exists E (path_join p (str_nat cl))")
    case False
    then show ?thesis using Cons by simp
  next
    case True
    then obtain names where n: "listdir E (path_join p (str_nat cl)) = Inr names"
      and r: "folder_loop E p cls (folder_class_loop E (path_join p (str_nat cl)) cl names acc) = Inr acc'"
      using Cons.prems(1) by (auto split: sum.splits)
    show ?thesis
      using Cons.IH [OF r folder_class_loop_len [OF Cons.prems(2)]] .
  qed
qed

lemma np_array_images_len:
  "np_array_images ims = Inr a \<Longrightarrow> np_len a = length ims"
  by (auto simp: np_array_images_def np_len_def np_empty_def split: list.splits if_splits)

lemma load_folder_structure_paired:
  assumes "load_folder_structure P E p = Inr c"
  shows "paired c"
proof (cases "path_exists E p")
  case False
  then show ?thesis using assms
    by (auto simp: load_folder_structure_def paired_def np_len_def np_empty_def)
next
  case True
  then obtain images labels arr where
    f: "folder_loop E p [0..<NB_CLASSES P] ([], []) = Inr (images, labels)" and
    a: "np_array_images images = Inr arr" and c: "c = (arr, labels)"
    using assms by (auto simp: load_folder_structure_def split: sum.splits prod.splits)
  have "length images = length labels" using folder_loop_len [OF f] by simp
  then show ?thesis using np_array_images_len [OF a] by (simp add: c paired_def)
qed

lemma label_lines_loop_len:
  "label_lines_loop E d lines acc = Inr acc' \<Longrightarrow> length (fst acc) = length (snd acc) \<Longrightarrow>
     length (fst acc') = length (snd acc')"
proof (induction lines arbitrary: acc)
  case Nil
  then show ?case by simp
next
  case (Cons ln lines)
  obtain images labels where acc: "acc = (images, labels)" by (cases acc)
  show ?case
    using Cons.prems unfolding acc
    by (auto split: if_splits sum.splits option.splits dest!: Cons.IH)
qed

lemma load_label_file_dataset_paired:
  assumes "load_label_file_dataset E p = Inr c"
  shows "paired c"
proof (cases "path_exists E (path_join p ''labels.txt'') \<and> path_exists E (path_join p ''images'')")
  case False
  then show ?thesis using assms
    by (auto simp: load_label_file_dataset_def paired_def np_len_def np_empty_def)
next
  case True
  then obtain lines images labels arr where
    f: "label_lines_loop E (path_join p ''images'') lines ([], []) = Inr (images, labels)" and
    a: "np_array_images images = Inr arr" and c: "c = (arr, labels)"
    using assms by (auto simp: load_label_file_dataset_def split: sum.splits prod.splits)
  have "length images = length labels" using label_lines_loop_len [OF f] by simp
  then show ?thesis using np_array_images_len [OF a] by (simp add: c paired_def)
qed

lemma read_source_paired:
  assumes "mnist_consistent E" and "read_source P E cfg = Inr (Some c)"
  shows "paired c"
  using assms load_builtin_dataset_paired load_folder_structure_paired load_label_file_dataset_paired
  by (auto simp: read_source_def split: if_splits sum.splits)

lemma take_pairs_subset:
  assumes "list_all (\<lambda>i. i < length xs) idx" and "length xs = length ys"
  shows "set (zip (map (\<lambda>i. xs ! i) idx) (map (\<lambda>i. ys ! i) idx)) \<subseteq> set (zip xs ys)"
proof -
  have "zip (map (\<lambda>i. xs ! i) idx) (map (\<lambda>i. ys ! i) idx) = map (\<lambda>i. (xs ! i, ys ! i)) idx"
    by (induction idx) auto
  moreover have "\<And>i. i \<in> set idx \<Longrightarrow> (xs ! i, ys ! i) \<in> set (zip xs ys)"
    using assms by (auto simp: list_all_iff set_zip)
  ultimately show ?thesis by auto
qed

lemma take_both_pairs:
  assumes "np_take images indices = Inr images'" and "list_take labels indices = Inr labels'"
    and "paired (images, labels)"
  shows "set (pairs (images', labels')) \<subseteq> set (pairs (images, labels))"
  using assms take_pairs_subset [of "items images" indices labels]
  by (auto simp: np_take_Inr list_take_Inr paired_def pairs_def np_len_def)

lemma apply_weight_paired:
  assumes "paired c" and "apply_weight R w c g = Inr (c1, g1)"
  shows "paired c1 \<and> set (pairs c1) \<subseteq> set (pairs c)"
proof -
  obtain images labels where c: "c = (images, labels)" by (cases c)
  obtain images' labels' where c1: "c1 = (images', labels')" by (cases c1)
  show ?thesis
  proof (cases "w < 1 \<and> 0 < np_len images")
    case False
    then have "c1 = c" using assms(2) unfolding c by (auto simp: apply_weight_def)
    then show ?thesis using assms(1) by simp
  next
    case True
    then obtain indices where
      "np_take images indices = Inr images'" and "list_take labels indices = Inr labels'"
      using assms(2) unfolding c c1
      by (auto simp: apply_weight_def split: sum.splits prod.splits)
    then show ?thesis
      unfolding c c1 using take_both_paired take_both_pairs assms(1) [unfolded c] by blast
  qed
qed

lemma source_step_paired:
  assumes "mnist_consistent E" and "loader_paired st" and "source_step P E R cfg (st, g) = Inr (st', g')"
  shows "loader_paired st'"
proof (cases "contributes P E cfg")
  case False
  then show ?thesis using source_step_skip [OF False assms(3)] assms(2) by simp
next
  case True
  then obtain images labels batch where
    r: "read_source P E cfg = Inr (Some (images, labels))" and
    a: "apply_weight R (get_weight cfg) (images, labels) g = Inr (batch, g')" and
    s: "st' = record_source P (source_name cfg) batch st"
    using source_step_contrib [OF True assms(3)] by blast
  have "paired batch"
    using apply_weight_paired [OF read_source_paired [OF assms(1) r] a] by simp
  then show ?thesis
    using assms(2) unfolding s loader_paired_def
    by (simp add: all_images_record_source all_labels_record_source paired_def list_all2_appendI)
qed

lemma sources_loop_paired:
  "mnist_consistent E \<Longrightarrow> loader_paired st \<Longrightarrow>
     sources_loop P E R srcs (st, g) = Inr (st', g') \<Longrightarrow> loader_paired st'"
proof (induction srcs arbitrary: st g)
  case Nil
  then show ?case by simp
next
  case (Cons cfg rest)
  from Cons.prems(3) obtain st1 g1 where
    s: "source_step P E R cfg (st, g) = Inr (st1, g1)" and
    r: "sources_loop P E R rest (st1, g1) = Inr (st', g')"
    by (auto split: sum.splits)
  show ?case
    using Cons.IH [OF Cons.prems(1) source_step_paired [OF Cons.prems(1,2) s] r] .
qed

lemma zip_concat_batches:
  "list_all2 (\<lambda>a l. np_len a = length l) arrs ls \<Longrightarrow>
     zip (concat (map items arrs)) (concat ls) = concat (map pairs (zip arrs ls))
   \<and> length (concat (map items arrs)) = length (concat ls)"
proof (induction rule: list_all2_induct)
  case Nil
  then show ?case by simp
next
  case (Cons a arrs l ls)
  then show ?case by (simp add: np_len_def pairs_def)
qed

lemma combine_paired:
  assumes "loader_paired st" and "combine st = Inr c"
  shows "paired c \<and> pairs c = concat (map pairs (zip (all_images st) (all_labels st)))"
  using combine_Inr [OF assms(2)] zip_concat_batches [OF assms(1) [unfolded loader_paired_def]]
  by (simp add: paired_def pairs_def np_len_def)

lemma load_all_sources_paired:
  assumes "mnist_consistent E" and "loader_paired st0"
    and "load_all_sources P E R (st0, g) = Inr (c, st, g')"
  shows "paired c
       \<and> (all_images st \<noteq> [] \<longrightarrow> pairs c = concat (map pairs (zip (all_images st) (all_labels st))))"
proof -
  from assms(3) have l: "sources_loop P E R (DATA_SOURCES P) (st0, g) = Inr (st, g')"
    by (auto simp: load_all_sources_def split: sum.splits prod.splits if_splits)
  have lp: "loader_paired st" using sources_loop_paired [OF assms(1,2) l] .
  show ?thesis
  proof (cases "all_images st = []")
    case True
    then have "load_builtin_dataset P E ''mnist'' = Inr c"
      using assms(3) l by (auto simp: load_all_sources_def load_mnist_fallback_def split: sum.splits)
    then show ?thesis using load_builtin_dataset_paired [OF assms(1)] True by blast
  next
    case False
    then have "combine st = Inr c"
      using assms(3) l by (auto simp: load_all_sources_def split: sum.splits)
    then show ?thesis using combine_paired [OF lp] by blast
  qed
qed

lemma shuffle_dataset_paired:
  assumes "paired c" and "shuffle_dataset R (fst c) (snd c) seed g = Inr (c3, g3)"
  shows "paired c3 \<and> set (pairs c3) \<subseteq> set (pairs c)"
proof -
  obtain images' labels' where c3: "c3 = (images', labels')" by (cases c3)
  obtain indices where
    "np_take (fst c) indices = Inr images'" and "list_take (snd c) indices = Inr labels'"
    using shuffle_dataset_Inr [OF assms(2) [unfolded c3]] by blast
  then show ?thesis
    unfolding c3 using take_both_paired take_both_pairs [of "fst c" indices images' "snd c" labels'] assms(1)
    by simp
qed

lemma truncate_corpus_pairs:
  assumes "paired c"
  shows "set (pairs (truncate_corpus P c)) \<subseteq> set (pairs c)"
proof -
  obtain images labels where c: "c = (images, labels)" by (cases c)
  have "set (zip (take k (items images)) (take k labels)) \<subseteq> set (zip (items images) labels)" for k
    using set_take_subset [of k "zip (items images) labels"] by (simp add: take_zip)
  then show ?thesis
    using assms unfolding c
    by (simp add: pairs_def truncate_corpus_def np_slice_to_def slice_to_def paired_def np_len_def)
qed

lemma train_test_split_paired:
  assumes "train_test_split S x y ts rs = Inr (a, b)"
  shows "paired a \<and> paired b \<and> set (pairs a) \<subseteq> set (pairs (x, y)) \<and> set (pairs b) \<subseteq> set (pairs (x, y))"
proof -
  obtain xa ya xb yb where a: "a = (xa, ya)" and b: "b = (xb, yb)" by (cases a, cases b)
  from train_test_split_Inr [OF assms [unfolded a b]] obtain train test where
    len: "np_len x = length y" and
    rt: "list_all (\<lambda>i. i < length y) train" and rs: "list_all (\<lambda>i. i < length y) test" and
    xa: "xa = \<lparr>ishape = ishape x, items = map (\<lambda>i. items x ! i) train\<rparr>" and
    ya: "ya = map (\<lambda>i. y ! i) train" and
    xb: "xb = \<lparr>ishape = ishape x, items = map (\<lambda>i. items x ! i) test\<rparr>" and
    yb: "yb = map (\<lambda>i. y ! i) test"
    by blast
  have l: "length (items x) = length y" using len by (simp add: np_len_def)
  have "set (pairs a) \<subseteq> set (pairs (x, y))"
    using take_pairs_subset [of "items x" train y] rt l by (simp add: a xa ya pairs_def)
  moreover have "set (pairs b) \<subseteq> set (pairs (x, y))"
    using take_pairs_subset [of "items x" test y] rs l by (simp add: b xb yb pairs_def)
  ultimately show ?thesis by (simp add: a b xa ya xb yb paired_def np_len_def)
qed

lemma split_corpus_paired:
  assumes "split_corpus P S c = Inr (tr, va, te)"
  shows "paired tr \<and> paired va \<and> paired te
       \<and> set (pairs tr) \<subseteq> set (pairs c) \<and> set (pairs va) \<subseteq> set (pairs c)
       \<and> set (pairs te) \<subseteq> set (pairs c)"
proof -
  obtain images labels where c: "c = (images, labels)" by (cases c)
  from assms obtain x_tv y_tv where
    s1: "train_test_split S images labels (1 / 5) (SHUFFLE_SEED P) = Inr ((x_tv, y_tv), te)" and
    s2: "train_test_split S x_tv y_tv (VALIDATION_SPLIT P) (SHUFFLE_SEED P) = Inr (tr, va)"
    unfolding c by (auto simp: split_corpus_def split: sum.splits prod.splits)
  show ?thesis
    using train_test_split_paired [OF s1] train_test_split_paired [OF s2] unfolding c by blast
qed

lemma get_data_splits_paired:
  assumes "get_data_splits P E R S g = Inr (tr, va, te)"
  shows "paired tr \<and> paired va \<and> paired te"
proof -
  from assms obtain c where "split_corpus P S c = Inr (tr, va, te)"
    by (auto simp: get_data_splits_def split: sum.splits prod.splits)
  then show ?thesis using split_corpus_paired by blast
qed

lemma new_loader_paired: "loader_paired new_loader"
  by (simp add: loader_paired_def new_loader_def)


subsection \<open>The pairing of images and labels\<close>

text \<open>
  Claim C1. With a consistent MNIST download, images and labels have one length after every
  stage: after each of the three readers returns, after the weighted subsampling, after the
  aggregation, after the shuffle, after the truncation, and in the train, validation and
  test partitions of the split and of the whole run. The pairing by index is kept: every
  (image, label) pair after subsampling, shuffling, truncating or splitting is a pair of the
  corpus before it, and the concatenation lists the pairs of the accumulated batches in order.
\<close>

theorem pairing_invariant:
  assumes "mnist_consistent E"
  shows "(load_builtin_dataset P E nm = Inr cb \<longrightarrow> paired cb)
       \<and> (load_folder_structure P E pth = Inr cf \<longrightarrow> paired cf)
       \<and> (load_label_file_dataset E pth = Inr cl \<longrightarrow> paired cl)
       \<and> (paired c \<longrightarrow> apply_weight R w c g = Inr (c1, g1) \<longrightarrow>
            paired c1 \<and> set (pairs c1) \<subseteq> set (pairs c))
       \<and> (load_all_sources P E R (new_loader, g) = Inr (c2, st, g2) \<longrightarrow>
            paired c2
            \<and> (all_images st \<noteq> [] \<longrightarrow>
                 pairs c2 = concat (map pairs (zip (all_images st) (all_labels st)))))
       \<and> (paired c \<longrightarrow> shuffle_dataset R (fst c) (snd c) seed g = Inr (c3, g3) \<longrightarrow>
            paired c3 \<and> set (pairs c3) \<subseteq> set (pairs c))
       \<and> (paired c \<longrightarrow>
            paired (truncate_corpus P c) \<and> set (pairs (truncate_corpus P c)) \<subseteq> set (pairs c))
       \<and> (split_corpus P S c = Inr (tr, va, te) \<longrightarrow>
            paired tr \<and> paired va \<and> paired te
            \<and> set (pairs tr) \<subseteq> set (pairs c) \<and> set (pairs va) \<subseteq> set (pairs c)
            \<and> set (pairs te) \<subseteq> set (pairs c))
       \<and> (get_data_splits P E R S g = Inr (trn, valn, tstn) \<longrightarrow>
            paired trn \<and> paired valn \<and> paired tstn)"
proof -
  have a: "load_builtin_dataset P E nm = Inr cb \<longrightarrow> paired cb"
    using load_builtin_dataset_paired [OF assms, of P nm cb] by blast
  have b: "load_folder_structure P E pth = Inr cf \<longrightarrow> paired cf"
    using load_folder_structure_paired [of P E pth cf] by blast
  have c: "load_label_file_dataset E pth = Inr cl \<longrightarrow> paired cl"
    using load_label_file_dataset_paired [of E pth cl] by blast
  have d: "paired c \<longrightarrow> apply_weight R w c g = Inr (c1, g1) \<longrightarrow>
            paired c1 \<and> set (pairs c1) \<subseteq> set (pairs c)"
    using apply_weight_paired [of c R w g c1 g1] by blast
  have e: "load_all_sources P E R (new_loader, g) = Inr (c2, st, g2) \<longrightarrow>
            paired c2
            \<and> (all_images st \<noteq> [] \<longrightarrow>
                 pairs c2 = concat (map pairs (zip (all_images st) (all_labels st))))"
    using load_all_sources_paired [OF assms new_loader_paired, of P R g c2 st g2] by blast
  have f: "paired c \<longrightarrow> shuffle_dataset R (fst c) (snd c) seed g = Inr (c3, g3) \<longrightarrow>
            paired c3 \<and> set (pairs c3) \<subseteq> set (pairs c)"
    using shuffle_dataset_paired [of c R seed g c3 g3] by blast
  have h: "paired c \<longrightarrow>
            paired (truncate_corpus P c) \<and> set (pairs (truncate_corpus P c)) \<subseteq> set (pairs c)"
    using truncate_corpus_paired [of c P] truncate_corpus_pairs [of c P] by blast
  have i: "split_corpus P S c = Inr (tr, va, te) \<longrightarrow>
            paired tr \<and> paired va \<and> paired te
            \<and> set (pairs tr) \<subseteq> set (pairs c) \<and> set (pairs va) \<subseteq> set (pairs c)
            \<and> set (pairs te) \<subseteq> set (pairs c)"
    using split_corpus_paired [of P S c tr va te] by blast
  have j: "get_data_splits P E R S g = Inr (trn, valn, tstn) \<longrightarrow>
            paired trn \<and> paired valn \<and> paired tstn"
    using get_data_splits_paired [of P E R S g trn valn tstn] by blast
  show ?thesis using a b c d e f h i j by (intro conjI) assumption+
qed

theorem pairing_invariant_witness:
  "mnist_consistent demo_env
   \<and> load_builtin_dataset demo_params demo_env ''MNIST'' = Inr (\<lparr>ishape = [1, 1, 3], items = [[1, 1, 1], [2, 2, 2], [3, 3, 3], [4, 4, 4], [5, 5, 5], [6, 6, 6]]\<rparr>, [0, 1, 0, 1, 0, 1])
   \<and> paired (\<lparr>ishape = [1, 1, 3], items = [[1, 1, 1], [2, 2, 2], [3, 3, 3], [4, 4, 4], [5, 5, 5], [6, 6, 6]]\<rparr>, [0, 1, 0, 1, 0, 1])
   \<and> get_data_splits demo_params demo_env demo_rng demo_splitter 0
     = Inr ((\<lparr>ishape = [1, 1, 3], items = [[20, 20, 20], [21, 21, 21], [1, 1, 1], [2, 2, 2]]\<rparr>, [1, 0, 0, 1]), (\<lparr>ishape = [1, 1, 3], items = [[12, 12, 12]]\<rparr>, [1]), (\<lparr>ishape = [1, 1, 3], items = [[10, 10, 10], [11, 11, 11]]\<rparr>, [0, 0]))
   \<and> paired (\<lparr>ishape = [1, 1, 3], items = [[20, 20, 20], [21, 21, 21], [1, 1, 1], [2, 2, 2]]\<rparr>, [1, 0, 0, 1]) \<and> paired (\<lparr>ishape = [1, 1, 3], items = [[12, 12, 12]]\<rparr>, [1]) \<and> paired (\<lparr>ishape = [1, 1, 3], items = [[10, 10, 10], [11, 11, 11]]\<rparr>, [0, 0])"
proof -
  have mc: "mnist_consistent demo_env"
    by code_simp
  have b: "load_builtin_dataset demo_params demo_env ''MNIST'' = Inr (\<lparr>ishape = [1, 1, 3], items = [[1, 1, 1], [2, 2, 2], [3, 3, 3], [4, 4, 4], [5, 5, 5], [6, 6, 6]]\<rparr>, [0, 1, 0, 1, 0, 1])"
    by code_simp
  have d: "get_data_splits demo_params demo_env demo_rng demo_splitter 0
     = Inr ((\<lparr>ishape = [1, 1, 3], items = [[20, 20, 20], [21, 21, 21], [1, 1, 1], [2, 2, 2]]\<rparr>, [1, 0, 0, 1]), (\<lparr>ishape = [1, 1, 3], items = [[12, 12, 12]]\<rparr>, [1]), (\<lparr>ishape = [1, 1, 3], items = [[10, 10, 10], [11, 11, 11]]\<rparr>, [0, 0]))"
    by code_simp
  show ?thesis
    using mc b d
      pairing_invariant [OF mc, where P = demo_params and R = demo_rng and S = demo_splitter
        and g = 0 and nm = "''MNIST''" and cb = "(\<lparr>ishape = [1, 1, 3], items = [[1, 1, 1], [2, 2, 2], [3, 3, 3], [4, 4, 4], [5, 5, 5], [6, 6, 6]]\<rparr>, [0, 1, 0, 1, 0, 1])"
        and trn = "(\<lparr>ishape = [1, 1, 3], items = [[20, 20, 20], [21, 21, 21], [1, 1, 1], [2, 2, 2]]\<rparr>, [1, 0, 0, 1])"
        and valn = "(\<lparr>ishape = [1, 1, 3], items = [[12, 12, 12]]\<rparr>, [1])"
        and tstn = "(\<lparr>ishape = [1, 1, 3], items = [[10, 10, 10], [11, 11, 11]]\<rparr>, [0, 0])"]
    by blast
qed

subsection \<open>Shuffling\<close>



text \<open>
  Claim C10. \<open>shuffle_dataset\<close> replaces the global generator state by the one the seed
  installs before it draws: its result and the state it leaves do not depend on the state
  at the call, and the state it leaves is the one after a single permutation draw from the
  seeded state. The weighted subsampling runs before that, on the state the process had:
  the concrete run gives two different corpora from two initial states under one seed.
\<close>

theorem shuffle_dataset_reseeds:
  "shuffle_dataset R images labels seed g = shuffle_dataset R images labels seed g'
   \<and> (shuffle_dataset R images labels seed g = Inr (c, g2)
        \<longrightarrow> g2 = snd (rng_permutation R (rng_seed R seed) (np_len images)))
   \<and> load_combined_dataset demo_params demo_env demo_rng 0
        \<noteq> load_combined_dataset demo_params demo_env demo_rng 1"
proof -
  have a: "shuffle_dataset R images labels seed g = shuffle_dataset R images labels seed g'"
    by (simp add: shuffle_dataset_def)
  have b: "shuffle_dataset R images labels seed g = Inr (c, g2)
        \<longrightarrow> g2 = snd (rng_permutation R (rng_seed R seed) (np_len images))"
    by (auto simp: shuffle_dataset_def np_random_seed_def split: sum.splits prod.splits if_splits)
  have c: "load_combined_dataset demo_params demo_env demo_rng 0
        \<noteq> load_combined_dataset demo_params demo_env demo_rng 1"
    by code_simp
  show ?thesis using a b c by blast
qed

theorem shuffle_dataset_reseeds_witness:
  "shuffle_dataset demo_rng (np_stack3 (demo_gray [1, 2, 3])) [7, 8, 9] 5 0
     = Inr ((\<lparr>ishape = [1, 1, 3], items = [[3, 3, 3], [1, 1, 1], [2, 2, 2]]\<rparr>, [9, 7, 8]), 6)
   \<and> (6 :: nat) = snd (rng_permutation demo_rng (rng_seed demo_rng 5)
                         (np_len (np_stack3 (demo_gray [1, 2, 3]))))"
proof -
  have e: "shuffle_dataset demo_rng (np_stack3 (demo_gray [1, 2, 3])) [7, 8, 9] 5 0
     = Inr ((\<lparr>ishape = [1, 1, 3], items = [[3, 3, 3], [1, 1, 1], [2, 2, 2]]\<rparr>, [9, 7, 8]), 6)"
    by code_simp
  show ?thesis
    using e shuffle_dataset_reseeds [of demo_rng "np_stack3 (demo_gray [1, 2, 3])" "[7, 8, 9]" 5 0 0
        "(\<lparr>ishape = [1, 1, 3], items = [[3, 3, 3], [1, 1, 1], [2, 2, 2]]\<rparr>, [9, 7, 8])" 6]
    by simp
qed

subsection \<open>Weighted subsampling\<close>



subsection \<open>Aggregation\<close>

text \<open>
  Claim C8. After the loop over the configured sources, \<open>load_all_sources\<close> returns what
  the builtin MNIST loader returns when the accumulation list is empty, and otherwise the
  concatenation of the accumulated batches and labels, in order. For a loader whose list
  was empty before the loop, the list is empty after it exactly when no source contributed.
\<close>

theorem load_all_sources_fallback:
  assumes "sources_loop P E R (DATA_SOURCES P) (st0, g) = Inr (st, g')"
  shows "(all_images st = [] \<longrightarrow>
            load_all_sources P E R (st0, g)
              = (case load_builtin_dataset P E ''mnist'' of
                   Inl e \<Rightarrow> Inl e | Inr c \<Rightarrow> Inr (c, st, g')))
       \<and> (all_images st \<noteq> [] \<longrightarrow>
            load_all_sources P E R (st0, g)
              = (case combine st of Inl e \<Rightarrow> Inl e | Inr c \<Rightarrow> Inr (c, st, g')))
       \<and> (all_images st \<noteq> [] \<longrightarrow> load_all_sources P E R (st0, g) = Inr (c, st2, g2) \<longrightarrow>
            items (fst c) = concat (map items (all_images st))
            \<and> snd c = concat (all_labels st))
       \<and> (all_images st0 = [] \<longrightarrow>
            (all_images st = []) = (filter (contributes P E) (DATA_SOURCES P) = []))"
proof -
  have a: "all_images st = [] \<longrightarrow>
            load_all_sources P E R (st0, g)
              = (case load_builtin_dataset P E ''mnist'' of
                   Inl e \<Rightarrow> Inl e | Inr c \<Rightarrow> Inr (c, st, g'))"
    using assms by (simp add: load_all_sources_def load_mnist_fallback_def)
  have b: "all_images st \<noteq> [] \<longrightarrow>
            load_all_sources P E R (st0, g)
              = (case combine st of Inl e \<Rightarrow> Inl e | Inr c \<Rightarrow> Inr (c, st, g'))"
    using assms by (simp add: load_all_sources_def)
  have c: "all_images st \<noteq> [] \<longrightarrow> load_all_sources P E R (st0, g) = Inr (c, st2, g2) \<longrightarrow>
            items (fst c) = concat (map items (all_images st))
            \<and> snd c = concat (all_labels st)"
    using b combine_Inr [of st c] by (auto split: sum.splits)
  have d: "all_images st0 = [] \<longrightarrow>
            (all_images st = []) = (filter (contributes P E) (DATA_SOURCES P) = [])"
    using sources_loop_count [OF assms] by auto
  show ?thesis using a b c d by blast
qed

theorem load_all_sources_fallback_witness:
  "all_images new_loader = []
   \<and> load_all_sources demo_params_unloadable demo_env demo_rng (new_loader, 0)
       = (case load_builtin_dataset demo_params_unloadable demo_env ''mnist'' of
            Inl e \<Rightarrow> Inl e | Inr c \<Rightarrow> Inr (c, new_loader, 0))
   \<and> load_builtin_dataset demo_params_unloadable demo_env ''mnist''
       = Inr (\<lparr>ishape = [1, 1, 3],
               items = [[1, 1, 1], [2, 2, 2], [3, 3, 3], [4, 4, 4], [5, 5, 5], [6, 6, 6]]\<rparr>,
              [0, 1, 0, 1, 0, 1])
   \<and> filter (contributes demo_params_unloadable demo_env) (DATA_SOURCES demo_params_unloadable) = []"
proof -
  have e: "all_images new_loader = []" by (simp add: new_loader_def)
  have m: "load_builtin_dataset demo_params_unloadable demo_env ''mnist''
       = Inr (\<lparr>ishape = [1, 1, 3],
               items = [[1, 1, 1], [2, 2, 2], [3, 3, 3], [4, 4, 4], [5, 5, 5], [6, 6, 6]]\<rparr>,
              [0, 1, 0, 1, 0, 1])"
    by code_simp
  show ?thesis
    using e m load_all_sources_fallback [OF demo_unloadable_loop] by simp
qed



subsection \<open>Readers\<close>

text \<open>
  Claim C3. The claim says that a manifest line whose second token is not an integer is
  skipped. On the manifest with the lines \<^verbatim>\<open>x.png 1\<close> and \<^verbatim>\<open>y.png seven\<close> the second line
  has two tokens, \<^verbatim>\<open>int\<close> raises ValueError on \<^verbatim>\<open>seven\<close>, and the error leaves
  \<open>load_label_file_dataset\<close>, \<open>load_all_sources\<close> and \<open>get_data_splits\<close>: the
  well-formed first line is lost with it.
\<close>

theorem label_file_non_integer_label_raises:
  "py_split (py_strip ''y.png seven'') = [''y.png'', ''seven'']
   \<and> py_int ''seven'' = Inl ValueError
   \<and> load_label_file_dataset demo_env_bad_manifest ''lf'' = Inl ValueError
   \<and> corpus_of (load_all_sources demo_params_manifest demo_env_bad_manifest demo_rng (new_loader, 0))
       = Inl ValueError
   \<and> get_data_splits demo_params_manifest demo_env_bad_manifest demo_rng demo_splitter 0
       = Inl ValueError"
  by code_simp

text \<open>
  Claim C4. The claim says that the channel depth of the combined corpus follows the
  grayscale configuration for every mix of sources. With grayscale on, the builtin reader
  gives depth 1, a folder source alone gives a corpus of depth 3, and the builtin and the
  folder source together make the concatenation raise ValueError.
\<close>

theorem grayscale_file_sources_keep_three_channels:
  "USE_GRAYSCALE demo_params_gray
   \<and> load_builtin_dataset demo_params_gray demo_env ''mnist''
       = Inr (\<lparr>ishape = [1, 1, 1], items = [[1], [2], [3], [4], [5], [6]]\<rparr>, [0, 1, 0, 1, 0, 1])
   \<and> corpus_of (load_all_sources demo_params_gray demo_env demo_rng (new_loader, 0))
       = Inr (\<lparr>ishape = [1, 1, 3], items = [[10, 10, 10], [11, 11, 11], [12, 12, 12]]\<rparr>, [0, 0, 1])
   \<and> corpus_of (load_all_sources demo_params_gray_mixed demo_env demo_rng (new_loader, 0))
       = Inl ValueError"
  by code_simp

subsection \<open>Splitting\<close>





end
